theory Spec2Isabelle
  imports Main
begin

section \<open>The Guidedog worker: an API proxy in front of OpenAI and Anthropic\<close>

text \<open>
  A shallow embedding of \<^verbatim>\<open>src/cloudflare-worker/guidedog-worker.js\<close>. The worker is
  one exported handler \<^verbatim>\<open>fetch(request, env, ctx)\<close> and three helpers
  (\<^verbatim>\<open>handleCORS\<close>, \<^verbatim>\<open>handleOpenAI\<close>, \<^verbatim>\<open>handleAnthropic\<close>). What the
  platform supplies is a parameter of the model:
  \<^item> the global \<^verbatim>\<open>fetch\<close> is a function from the call the worker issues to its outcome,
    either the message of the error it throws (\<open>Inl\<close>) or the upstream response (\<open>Inr\<close>);
  \<^item> \<^verbatim>\<open>new Date().toISOString()\<close> is the string \<open>now\<close>;
  \<^item> the text of \<^verbatim>\<open>error.message\<close> for an exception that a platform constructor
    throws is the function \<open>message_of\<close>;
  \<^item> \<^verbatim>\<open>new URL(request.url).pathname\<close> is the field \<open>pathname\<close> of the request.
  Every handler returns its outcome together with the list of upstream calls it issued,
  in order, so that "no upstream call" and "exactly one upstream call" are statements
  about that list. The outcome is the response it returns (\<open>Inr\<close>) or the exception
  that escapes it (\<open>Inl\<close>), in which case the worker has produced no response.
\<close>

subsection \<open>Strings\<close>

text \<open>Byte-wise lower-casing of the ASCII letters, as header names are normalised.\<close>

definition toLowerCase_char :: "char \<Rightarrow> char" where
  "toLowerCase_char c =
     (case map_of (zip ''ABCDEFGHIJKLMNOPQRSTUVWXYZ'' ''abcdefghijklmnopqrstuvwxyz'') c of
        Some l \<Rightarrow> l
      | None \<Rightarrow> c)"

definition toLowerCase :: "string \<Rightarrow> string" where
  "toLowerCase s = map toLowerCase_char s"

text \<open>\<^verbatim>\<open>s.startsWith(p)\<close>.\<close>

fun startsWith :: "string \<Rightarrow> string \<Rightarrow> bool" where
  "startsWith s [] = True"
| "startsWith [] (p # ps) = False"
| "startsWith (c # cs) (p # ps) = (c = p \<and> startsWith cs ps)"

text \<open>
  \<^verbatim>\<open>s.replace(pat, rep)\<close> with a string pattern: the first occurrence of \<open>pat\<close>, scanning
  from the left, is replaced; a string without an occurrence is returned as it is. (The
  worker's replacement is the empty string, so the \<^verbatim>\<open>$\<close> patterns of a replacement play
  no part.)
\<close>

fun replace :: "string \<Rightarrow> string \<Rightarrow> string \<Rightarrow> string" where
  "replace [] pat rep = (if pat = [] then rep else [])"
| "replace (c # cs) pat rep =
     (if startsWith (c # cs) pat then rep @ drop (length pat) (c # cs)
      else c # replace cs pat rep)"

subsection \<open>JSON.stringify\<close>

text \<open>
  The worker serialises object literals whose leaves are strings. \<open>JObject\<close> keeps the
  properties in insertion order, which is the order \<^verbatim>\<open>JSON.stringify\<close> prints them in.
\<close>

datatype json = JString string | JObject "(string \<times> json) list"

definition hex_digit :: "nat \<Rightarrow> char" where
  "hex_digit n = ''0123456789abcdef'' ! (n mod 16)"

text \<open>
  The escapes of \<^verbatim>\<open>JSON.stringify\<close>: the two-character forms for backspace, tab, line
  feed, form feed, carriage return, the double quote (\<open>0x22\<close>) and the backslash
  (\<open>0x5C\<close>), and \<^verbatim>\<open>\u00XX\<close> for the other control characters.
\<close>

definition QuoteJSONChar :: "char \<Rightarrow> string" where
  "QuoteJSONChar c =
     (let n = (of_char c :: nat) in
      if n = 8 then [CHR 0x5C, CHR ''b'']
      else if n = 9 then [CHR 0x5C, CHR ''t'']
      else if n = 10 then [CHR 0x5C, CHR ''n'']
      else if n = 12 then [CHR 0x5C, CHR ''f'']
      else if n = 13 then [CHR 0x5C, CHR ''r'']
      else if n = 34 then [CHR 0x5C, CHR 0x22]
      else if n = 92 then [CHR 0x5C, CHR 0x5C]
      else if n < 32 then
        [CHR 0x5C, CHR ''u'', CHR ''0'', CHR ''0'', hex_digit (n div 16), hex_digit (n mod 16)]
      else [c])"

definition QuoteJSONString :: "string \<Rightarrow> string" where
  "QuoteJSONString s = [CHR 0x22] @ concat (map QuoteJSONChar s) @ [CHR 0x22]"

fun join :: "string \<Rightarrow> string list \<Rightarrow> string" where
  "join sep [] = []"
| "join sep [x] = x"
| "join sep (x # y # ys) = x @ sep @ join sep (y # ys)"

fun JSON_stringify :: "json \<Rightarrow> string" where
  "JSON_stringify (JString s) = QuoteJSONString s"
| "JSON_stringify (JObject props) =
     ''{'' @ join '',''
        (map (\<lambda>kv. QuoteJSONString (fst kv) @ '':'' @ JSON_stringify (snd kv)) props) @ ''}''"

subsection \<open>Exceptions of the platform classes\<close>

text \<open>
  What \<^verbatim>\<open>Headers\<close> and \<^verbatim>\<open>new Response\<close> throw. \<open>StatusOutOfRange\<close> is a
  \<^verbatim>\<open>RangeError\<close>, the others are \<^verbatim>\<open>TypeError\<close>s.
\<close>

datatype exn =
    InvalidHeaderName
  | InvalidHeaderValue
  | StatusOutOfRange
  | InvalidStatusText
  | BodyWithNullBodyStatus

subsection \<open>Headers\<close>

text \<open>
  A \<^verbatim>\<open>Headers\<close> object is modelled by what \<^verbatim>\<open>get\<close> observes of it: a finite map from
  the lower-cased header name to the header's value. Names are matched without regard to
  case, so \<^verbatim>\<open>set\<close>, \<^verbatim>\<open>append\<close>, \<^verbatim>\<open>delete\<close> and \<^verbatim>\<open>get\<close> lower-case the name
  they are given. \<^verbatim>\<open>new Headers(h)\<close> of a \<^verbatim>\<open>Headers\<close> object \<open>h\<close> is a copy, that is
  \<open>h\<close> itself.

  \<^verbatim>\<open>set\<close> and \<^verbatim>\<open>append\<close> first strip the leading and trailing HTTP whitespace (tab,
  line feed, carriage return, space) of the value; they throw when the name is not a
  token or when the stripped value holds a NUL, a line feed or a carriage return.
  \<^verbatim>\<open>delete\<close> throws when the name is not a token. Strings are byte strings here, so a
  character beyond \<open>0xFF\<close>, which these methods also refuse, does not arise.
\<close>

type_synonym Headers = "string \<rightharpoonup> string"

definition is_http_whitespace :: "char \<Rightarrow> bool" where
  "is_http_whitespace c \<longleftrightarrow> c \<in> set [CHR 0x09, CHR 0x0A, CHR 0x0D, CHR 0x20]"

definition normalize_value :: "string \<Rightarrow> string" where
  "normalize_value v =
     rev (dropWhile is_http_whitespace (rev (dropWhile is_http_whitespace v)))"

definition valid_header_value :: "string \<Rightarrow> bool" where
  "valid_header_value v \<longleftrightarrow> list_all (\<lambda>c. c \<notin> set [CHR 0x00, CHR 0x0A, CHR 0x0D]) v"

text \<open>
  The token characters: the letters, the digits and
  \<^verbatim>\<open>! # $ % & ' * + - . ^ _ ` | ~\<close>, the punctuation given by its codes.
\<close>

definition is_token_char :: "char \<Rightarrow> bool" where
  "is_token_char c \<longleftrightarrow>
     c \<in> set (''abcdefghijklmnopqrstuvwxyzABCDEFGHIJKLMNOPQRSTUVWXYZ0123456789'' @
       [CHR 0x21, CHR 0x23, CHR 0x24, CHR 0x25, CHR 0x26, CHR 0x27, CHR 0x2A, CHR 0x2B,
        CHR 0x2D, CHR 0x2E, CHR 0x5E, CHR 0x5F, CHR 0x60, CHR 0x7C, CHR 0x7E])"

definition valid_header_name :: "string \<Rightarrow> bool" where
  "valid_header_name name \<longleftrightarrow> name \<noteq> [] \<and> list_all is_token_char name"

definition headers_set :: "string \<Rightarrow> string \<Rightarrow> Headers \<Rightarrow> exn + Headers" where
  "headers_set name v h =
     (let nv = normalize_value v in
      if \<not> valid_header_name name then Inl InvalidHeaderName
      else if \<not> valid_header_value nv then Inl InvalidHeaderValue
      else Inr (h(toLowerCase name \<mapsto> nv)))"

definition headers_append :: "string \<Rightarrow> string \<Rightarrow> Headers \<Rightarrow> exn + Headers" where
  "headers_append name v h =
     (let nv = normalize_value v in
      if \<not> valid_header_name name then Inl InvalidHeaderName
      else if \<not> valid_header_value nv then Inl InvalidHeaderValue
      else Inr (h(toLowerCase name \<mapsto>
             (case h (toLowerCase name) of None \<Rightarrow> nv | Some old \<Rightarrow> old @ '', '' @ nv))))"

definition headers_delete :: "string \<Rightarrow> Headers \<Rightarrow> exn + Headers" where
  "headers_delete name h =
     (if \<not> valid_header_name name then Inl InvalidHeaderName
      else Inr (h(toLowerCase name := None)))"

definition headers_get :: "Headers \<Rightarrow> string \<Rightarrow> string option" where
  "headers_get h name = h (toLowerCase name)"

text \<open>
  The \<^verbatim>\<open>headers\<close> option of \<^verbatim>\<open>new Response\<close> is a plain object, whose properties are
  appended in order, or a \<^verbatim>\<open>Headers\<close> object, which is copied.
\<close>

datatype HeadersInit = Object "(string \<times> string) list" | HeadersObject Headers

fun fill :: "(string \<times> string) list \<Rightarrow> Headers \<Rightarrow> exn + Headers" where
  "fill [] h = Inr h"
| "fill (kv # kvs) h =
     (case headers_append (fst kv) (snd kv) h of
        Inl e \<Rightarrow> Inl e
      | Inr h' \<Rightarrow> fill kvs h')"

fun Headers_of_init :: "HeadersInit \<Rightarrow> exn + Headers" where
  "Headers_of_init (Object obj) = fill obj Map.empty"
| "Headers_of_init (HeadersObject h) = Inr h"

text \<open>
  \<^verbatim>\<open>Object.entries(obj).forEach(([key, value]) => h.set(key, value))\<close>: the loop stops at
  the first \<^verbatim>\<open>set\<close> that throws.
\<close>

fun set_each :: "(string \<times> string) list \<Rightarrow> Headers \<Rightarrow> exn + Headers" where
  "set_each [] h = Inr h"
| "set_each (kv # kvs) h =
     (case headers_set (fst kv) (snd kv) h of
        Inl e \<Rightarrow> Inl e
      | Inr h' \<Rightarrow> set_each kvs h')"

subsection \<open>Requests, responses, configuration\<close>

record Request =
  req_method :: string
  pathname :: string
  headers :: Headers
  body :: "string option"

record Response =
  status :: nat
  statusText :: string
  resp_headers :: Headers
  resp_body :: "string option"

text \<open>
  The body handed to \<^verbatim>\<open>new Response\<close> is a string or a stream; \<^verbatim>\<open>null\<close> is \<open>None\<close>.
  Either way the response's body is its content.
\<close>

datatype BodyInit = Text string | Stream string

fun content :: "BodyInit \<Rightarrow> string" where
  "content (Text s) = s"
| "content (Stream s) = s"

definition null_body_status :: "nat \<Rightarrow> bool" where
  "null_body_status st \<longleftrightarrow> st \<in> set [101, 103, 204, 205, 304]"

text \<open>
  A status text is a reason phrase: tabs, spaces, the visible ASCII characters and the
  bytes from \<open>0x80\<close> on.
\<close>

definition valid_reason_phrase :: "string \<Rightarrow> bool" where
  "valid_reason_phrase s \<longleftrightarrow>
     list_all (\<lambda>c. c = CHR 0x09 \<or> (32 \<le> (of_char c :: nat) \<and> c \<noteq> CHR 0x7F)) s"

text \<open>
  \<^verbatim>\<open>new Response(body, {status, statusText, headers})\<close>, with the checks in the order the
  constructor makes them: the status is in 200..599, the status text is a reason
  phrase, the headers are filled, and a body is refused with a null-body status. A string
  body brings the content type \<^verbatim>\<open>text/plain;charset=UTF-8\<close> when the headers have none.
\<close>

definition new_Response ::
    "BodyInit option \<Rightarrow> nat \<Rightarrow> string \<Rightarrow> HeadersInit \<Rightarrow> exn + Response" where
  "new_Response b st stText hinit =
     (if st < 200 \<or> 599 < st then Inl StatusOutOfRange
      else if \<not> valid_reason_phrase stText then Inl InvalidStatusText
      else
        case Headers_of_init hinit of
          Inl e \<Rightarrow> Inl e
        | Inr h \<Rightarrow>
            (case b of
               None \<Rightarrow>
                 Inr \<lparr>status = st, statusText = stText, resp_headers = h, resp_body = None\<rparr>
             | Some bi \<Rightarrow>
                 if null_body_status st then Inl BodyWithNullBodyStatus
                 else
                   Inr \<lparr>status = st, statusText = stText,
                        resp_headers =
                          (case bi of
                             Text s \<Rightarrow>
                               (if h ''content-type'' = None
                                then h(''content-type'' \<mapsto> ''text/plain;charset=UTF-8'')
                                else h)
                           | Stream s \<Rightarrow> h),
                        resp_body = Some (content bi)\<rparr>))"

text \<open>The secrets of the worker; a secret that is not set is \<open>None\<close>.\<close>

record Env =
  OPENAI_API_KEY :: "string option"
  ANTHROPIC_API_KEY :: "string option"

text \<open>
  \<^verbatim>\<open>!KEY\<close> is true of \<^verbatim>\<open>undefined\<close> and of the empty string; \<open>truthy\<close> is its
  negation.
\<close>

definition truthy :: "string option \<Rightarrow> bool" where
  "truthy k = (case k of None \<Rightarrow> False | Some s \<Rightarrow> s \<noteq> [])"

text \<open>The arguments of one call of the global \<^verbatim>\<open>fetch(url, {method, headers, body})\<close>.\<close>

record FetchCall =
  url :: string
  init_method :: string
  init_headers :: Headers
  init_body :: "string option"

type_synonym GlobalFetch = "FetchCall \<Rightarrow> string + Response"

type_synonym Outcome = "(exn + Response) \<times> FetchCall list"

subsection \<open>The worker\<close>

definition corsHeaders :: "(string \<times> string) list" where
  "corsHeaders =
     [(''Access-Control-Allow-Origin'', ''*''),
      (''Access-Control-Allow-Methods'', ''GET, POST, PUT, DELETE, OPTIONS''),
      (''Access-Control-Allow-Headers'', ''Content-Type, Authorization, X-Requested-With'')]"

definition handleCORS :: "exn + Response" where
  "handleCORS = new_Response None 204 [] (Object corsHeaders)"

text \<open>
  The three places that answer with \<^verbatim>\<open>JSON.stringify\<close> of an error object and
  \<^verbatim>\<open>{ 'Content-Type': 'application/json', ...corsHeaders }\<close> share this shape.
\<close>

definition error_response :: "nat \<Rightarrow> string \<Rightarrow> string \<Rightarrow> exn + Response" where
  "error_response code err msg =
     new_Response
       (Some (Text (JSON_stringify (JObject [(''error'', JString err), (''message'', JString msg)]))))
       code [] (Object ((''Content-Type'', ''application/json'') # corsHeaders))"

text \<open>
  The success path of both forwarders, after the upstream has answered: the upstream's
  headers are copied, every entry of \<open>corsHeaders\<close> is \<^verbatim>\<open>set\<close> on the copy, and a
  response is constructed from the upstream's body, status and status text.
\<close>

definition relay :: "Response \<Rightarrow> exn + Response" where
  "relay response =
     (case set_each corsHeaders (resp_headers response) of
        Inl e \<Rightarrow> Inl e
      | Inr responseHeaders \<Rightarrow>
          new_Response (map_option Stream (resp_body response)) (status response)
            (statusText response) (HeadersObject responseHeaders))"

text \<open>
  The \<^verbatim>\<open>try\<close> block of both forwarders: the upstream call and the relay of its
  response. Its result is the response, or the message of whatever was thrown inside
  it, which the \<^verbatim>\<open>catch\<close> block puts into a 502 response.
\<close>

definition try_forward :: "(exn \<Rightarrow> string) \<Rightarrow> GlobalFetch \<Rightarrow> FetchCall \<Rightarrow> string + Response" where
  "try_forward message_of global_fetch call =
     (case global_fetch call of
        Inl message \<Rightarrow> Inl message
      | Inr response \<Rightarrow>
          (case relay response of
             Inl e \<Rightarrow> Inl (message_of e)
           | Inr r \<Rightarrow> Inr r))"

definition forward :: "(exn \<Rightarrow> string) \<Rightarrow> GlobalFetch \<Rightarrow> FetchCall \<Rightarrow> Outcome" where
  "forward message_of global_fetch call =
     (case try_forward message_of global_fetch call of
        Inr r \<Rightarrow> (Inr r, [call])
      | Inl message \<Rightarrow> (error_response 502 ''Proxy Error'' message, [call]))"

text \<open>
  In both forwarders the headers of the upstream call are built before the \<^verbatim>\<open>try\<close>
  block: an exception of \<^verbatim>\<open>headers.set\<close> or \<^verbatim>\<open>headers.delete\<close> escapes the handler.
\<close>

definition handleOpenAI ::
    "(exn \<Rightarrow> string) \<Rightarrow> GlobalFetch \<Rightarrow> Request \<Rightarrow> Env \<Rightarrow> string \<Rightarrow> Outcome" where
  "handleOpenAI message_of global_fetch request env path =
     (if \<not> truthy (OPENAI_API_KEY env) then
        (error_response 500 ''Configuration Error''
           ''OPENAI_API_KEY not configured in worker secrets'', [])
      else
        let openaiUrl = ''https://api.openai.com'' @ path in
        case headers_set ''Authorization'' (''Bearer '' @ the (OPENAI_API_KEY env))
               (headers request) of
          Inl e \<Rightarrow> (Inl e, [])
        | Inr h1 \<Rightarrow>
            (case headers_delete ''Host'' h1 of
               Inl e \<Rightarrow> (Inl e, [])
             | Inr hs \<Rightarrow>
                 forward message_of global_fetch
                   \<lparr>url = openaiUrl, init_method = req_method request, init_headers = hs,
                    init_body =
                      (if req_method request \<noteq> ''GET'' then body request else None)\<rparr>))"

definition handleAnthropic ::
    "(exn \<Rightarrow> string) \<Rightarrow> GlobalFetch \<Rightarrow> Request \<Rightarrow> Env \<Rightarrow> string \<Rightarrow> Outcome" where
  "handleAnthropic message_of global_fetch request env path =
     (if \<not> truthy (ANTHROPIC_API_KEY env) then
        (error_response 500 ''Configuration Error''
           ''ANTHROPIC_API_KEY not configured in worker secrets'', [])
      else
        let anthropicPath = replace path ''/anthropic'' [];
            anthropicUrl = ''https://api.anthropic.com'' @ anthropicPath
        in
        case headers_set ''x-api-key'' (the (ANTHROPIC_API_KEY env)) (headers request) of
          Inl e \<Rightarrow> (Inl e, [])
        | Inr h1 \<Rightarrow>
            (case headers_set ''anthropic-version'' ''2023-06-01'' h1 of
               Inl e \<Rightarrow> (Inl e, [])
             | Inr h2 \<Rightarrow>
                 (case headers_delete ''Host'' h2 of
                    Inl e \<Rightarrow> (Inl e, [])
                  | Inr hs \<Rightarrow>
                      forward message_of global_fetch
                        \<lparr>url = anthropicUrl, init_method = req_method request,
                         init_headers = hs,
                         init_body =
                           (if req_method request \<noteq> ''GET'' then body request else None)\<rparr>)))"

definition health_body :: "string \<Rightarrow> json" where
  "health_body now =
     JObject
       [(''status'', JString ''ok''),
        (''service'', JString ''guidedog''),
        (''timestamp'', JString now),
        (''endpoints'',
           JObject [(''openai'', JString ''/v1/*''), (''anthropic'', JString ''/anthropic/*'')])]"

text \<open>The health response names no status: the constructor's default is 200.\<close>

definition fetch ::
    "(exn \<Rightarrow> string) \<Rightarrow> GlobalFetch \<Rightarrow> string \<Rightarrow> Request \<Rightarrow> Env \<Rightarrow> Outcome" where
  "fetch message_of global_fetch now request env =
     (if req_method request = ''OPTIONS'' then (handleCORS, [])
      else
        let path = pathname request in
        if path = ''/health'' \<or> path = ''/'' then
          (new_Response (Some (Text (JSON_stringify (health_body now)))) 200 []
             (Object ((''Content-Type'', ''application/json'') # corsHeaders)), [])
        else if startsWith path ''/v1/'' then
          handleOpenAI message_of global_fetch request env path
        else if startsWith path ''/anthropic/'' then
          handleAnthropic message_of global_fetch request env path
        else
          (error_response 404 ''Not Found''
             ''Use /v1/* for OpenAI or /anthropic/* for Anthropic'', []))"

subsection \<open>The CORS header set, as a property of a response\<close>

definition has_cors :: "Response \<Rightarrow> bool" where
  "has_cors r \<longleftrightarrow>
     headers_get (resp_headers r) ''Access-Control-Allow-Origin'' = Some ''*'' \<and>
     headers_get (resp_headers r) ''Access-Control-Allow-Methods'' =
       Some ''GET, POST, PUT, DELETE, OPTIONS'' \<and>
     headers_get (resp_headers r) ''Access-Control-Allow-Headers'' =
       Some ''Content-Type, Authorization, X-Requested-With''"

subsection \<open>Example inputs\<close>

text \<open>
  Concrete requests, configurations and platform behaviours at which the theorems below
  are instantiated: a browser's headers, a configuration with both keys, one with none
  and one whose keys hold a line feed, an upstream that answers every call, one that
  answers with a protocol upgrade, and one that cannot be reached.
\<close>

definition example_headers :: Headers where
  "example_headers =
     [''host'' \<mapsto> ''guidedog.kpremks.workers.dev'', ''content-type'' \<mapsto> ''application/json'']"

definition example_env :: Env where
  "example_env = \<lparr>OPENAI_API_KEY = Some ''sk-test'', ANTHROPIC_API_KEY = Some ''ant-test''\<rparr>"

definition empty_env :: Env where
  "empty_env = \<lparr>OPENAI_API_KEY = None, ANTHROPIC_API_KEY = None\<rparr>"

definition padded_env :: Env where
  "padded_env =
     \<lparr>OPENAI_API_KEY = Some (''sk-test'' @ [CHR 0x0A]),
      ANTHROPIC_API_KEY = Some ('' ant-test'' @ [CHR 0x0A])\<rparr>"

definition broken_env :: Env where
  "broken_env =
     \<lparr>OPENAI_API_KEY = Some (''sk'' @ [CHR 0x0A] @ ''test''),
      ANTHROPIC_API_KEY = Some (''ant'' @ [CHR 0x0A] @ ''test'')\<rparr>"

definition example_message_of :: "exn \<Rightarrow> string" where
  "example_message_of e =
     (case e of
        InvalidHeaderName \<Rightarrow> ''Invalid header name.''
      | InvalidHeaderValue \<Rightarrow> ''Invalid header value.''
      | StatusOutOfRange \<Rightarrow> ''Status out of range.''
      | InvalidStatusText \<Rightarrow> ''Invalid status text.''
      | BodyWithNullBodyStatus \<Rightarrow> ''Body with a null-body status.'')"

definition example_upstream_response :: Response where
  "example_upstream_response =
     \<lparr>status = 201, statusText = ''Created'',
      resp_headers = [''x-request-id'' \<mapsto> ''req_1'', ''access-control-allow-origin'' \<mapsto> ''null''],
      resp_body = Some ''{}''\<rparr>"

definition upstream_ok :: GlobalFetch where
  "upstream_ok call = Inr example_upstream_response"

definition upgrade_response :: Response where
  "upgrade_response =
     \<lparr>status = 101, statusText = ''Switching Protocols'',
      resp_headers = [''upgrade'' \<mapsto> ''websocket''], resp_body = None\<rparr>"

definition upstream_upgrades :: GlobalFetch where
  "upstream_upgrades call = Inr upgrade_response"

definition upstream_down :: GlobalFetch where
  "upstream_down call = Inl ''Network connection lost''"

definition post_chat :: Request where
  "post_chat =
     \<lparr>req_method = ''POST'', pathname = ''/v1/chat/completions'', headers = example_headers,
      body = Some ''{}''\<rparr>"

definition post_messages :: Request where
  "post_messages =
     \<lparr>req_method = ''POST'', pathname = ''/anthropic/v1/messages'', headers = example_headers,
      body = Some ''{}''\<rparr>"

section \<open>Auxiliary facts\<close>

subsection \<open>Strings and header names\<close>

lemma startsWith_take: "startsWith s p \<longleftrightarrow> take (length p) s = p"
  by (induction s p rule: startsWith.induct) auto

lemma startsWith_append: "startsWith s (p @ q) \<Longrightarrow> startsWith s p"
  by (induction s p rule: startsWith.induct) auto

lemma replace_prefix: "startsWith s p \<Longrightarrow> replace s p r = r @ drop (length p) s"
  by (cases s) (auto simp: startsWith_take)

lemma v1_not_health: "startsWith p ''/v1/'' \<Longrightarrow> p \<noteq> ''/health'' \<and> p \<noteq> ''/''"
  by auto

lemma anthropic_not_health:
  "startsWith p ''/anthropic/'' \<Longrightarrow> p \<noteq> ''/health'' \<and> p \<noteq> ''/'' \<and> \<not> startsWith p ''/v1/''"
  by (cases p; cases "tl p") auto

lemma lower_names:
  "toLowerCase ''Access-Control-Allow-Origin'' = ''access-control-allow-origin''"
  "toLowerCase ''Access-Control-Allow-Methods'' = ''access-control-allow-methods''"
  "toLowerCase ''Access-Control-Allow-Headers'' = ''access-control-allow-headers''"
  "toLowerCase ''Content-Type'' = ''content-type''"
  "toLowerCase ''Authorization'' = ''authorization''"
  "toLowerCase ''Host'' = ''host''"
  "toLowerCase ''x-api-key'' = ''x-api-key''"
  "toLowerCase ''anthropic-version'' = ''anthropic-version''"
  by (simp_all add: toLowerCase_def toLowerCase_char_def)

lemma valid_names:
  "valid_header_name ''Access-Control-Allow-Origin''"
  "valid_header_name ''Access-Control-Allow-Methods''"
  "valid_header_name ''Access-Control-Allow-Headers''"
  "valid_header_name ''Content-Type''"
  "valid_header_name ''Authorization''"
  "valid_header_name ''Host''"
  "valid_header_name ''x-api-key''"
  "valid_header_name ''anthropic-version''"
  by (simp_all add: valid_header_name_def is_token_char_def)

lemma constant_values:
  "normalize_value ''*'' = ''*''"
  "normalize_value ''GET, POST, PUT, DELETE, OPTIONS'' = ''GET, POST, PUT, DELETE, OPTIONS''"
  "normalize_value ''Content-Type, Authorization, X-Requested-With'' =
     ''Content-Type, Authorization, X-Requested-With''"
  "normalize_value ''application/json'' = ''application/json''"
  "normalize_value ''2023-06-01'' = ''2023-06-01''"
  by (simp_all add: normalize_value_def is_http_whitespace_def)

lemma constant_values_valid:
  "valid_header_value ''*''"
  "valid_header_value ''GET, POST, PUT, DELETE, OPTIONS''"
  "valid_header_value ''Content-Type, Authorization, X-Requested-With''"
  "valid_header_value ''application/json''"
  "valid_header_value ''2023-06-01''"
  by (simp_all add: valid_header_value_def)

subsection \<open>The constant header sets\<close>

lemma cors_fill:
  "fill corsHeaders Map.empty =
     Inr [''access-control-allow-origin'' \<mapsto> ''*'',
          ''access-control-allow-methods'' \<mapsto> ''GET, POST, PUT, DELETE, OPTIONS'',
          ''access-control-allow-headers'' \<mapsto> ''Content-Type, Authorization, X-Requested-With'']"
  by (simp add: corsHeaders_def headers_append_def lower_names valid_names constant_values
      constant_values_valid)

lemma json_cors_fill:
  "fill ((''Content-Type'', ''application/json'') # corsHeaders) Map.empty =
     Inr [''content-type'' \<mapsto> ''application/json'',
          ''access-control-allow-origin'' \<mapsto> ''*'',
          ''access-control-allow-methods'' \<mapsto> ''GET, POST, PUT, DELETE, OPTIONS'',
          ''access-control-allow-headers'' \<mapsto> ''Content-Type, Authorization, X-Requested-With'']"
  by (simp add: corsHeaders_def headers_append_def lower_names valid_names constant_values
      constant_values_valid)

lemma cors_set_each:
  "set_each corsHeaders h =
     Inr (h(''access-control-allow-origin'' \<mapsto> ''*'',
            ''access-control-allow-methods'' \<mapsto> ''GET, POST, PUT, DELETE, OPTIONS'',
            ''access-control-allow-headers'' \<mapsto> ''Content-Type, Authorization, X-Requested-With''))"
  by (simp add: corsHeaders_def headers_set_def lower_names valid_names constant_values
      constant_values_valid)

subsection \<open>The responses the worker constructs\<close>

lemma handleCORS_eq:
  "handleCORS =
     Inr \<lparr>status = 204, statusText = [],
          resp_headers =
            [''access-control-allow-origin'' \<mapsto> ''*'',
             ''access-control-allow-methods'' \<mapsto> ''GET, POST, PUT, DELETE, OPTIONS'',
             ''access-control-allow-headers'' \<mapsto> ''Content-Type, Authorization, X-Requested-With''],
          resp_body = None\<rparr>"
  by (simp add: handleCORS_def new_Response_def valid_reason_phrase_def cors_fill)

lemma json_response_eq:
  assumes "200 \<le> code" and "code \<le> 599" and "\<not> null_body_status code"
  shows "new_Response (Some (Text txt)) code []
       (Object ((''Content-Type'', ''application/json'') # corsHeaders)) =
     Inr \<lparr>status = code, statusText = [],
          resp_headers =
            [''content-type'' \<mapsto> ''application/json'',
             ''access-control-allow-origin'' \<mapsto> ''*'',
             ''access-control-allow-methods'' \<mapsto> ''GET, POST, PUT, DELETE, OPTIONS'',
             ''access-control-allow-headers'' \<mapsto> ''Content-Type, Authorization, X-Requested-With''],
          resp_body = Some txt\<rparr>"
  using assms
  by (simp add: new_Response_def valid_reason_phrase_def json_cors_fill del: fill.simps)

lemma plain_statuses:
  "\<not> null_body_status 200" "\<not> null_body_status 404" "\<not> null_body_status 500"
  "\<not> null_body_status 502"
  by (simp_all add: null_body_status_def)

lemma error_response_eq:
  assumes "code \<in> {404, 500, 502}"
  shows "error_response code err msg =
     Inr \<lparr>status = code, statusText = [],
          resp_headers =
            [''content-type'' \<mapsto> ''application/json'',
             ''access-control-allow-origin'' \<mapsto> ''*'',
             ''access-control-allow-methods'' \<mapsto> ''GET, POST, PUT, DELETE, OPTIONS'',
             ''access-control-allow-headers'' \<mapsto> ''Content-Type, Authorization, X-Requested-With''],
          resp_body =
            Some (JSON_stringify (JObject [(''error'', JString err), (''message'', JString msg)]))\<rparr>"
  unfolding error_response_def
  using assms by (intro json_response_eq) (auto simp: plain_statuses)

lemma relay_eq:
  assumes "200 \<le> status upstream" and "status upstream \<le> 599"
    and "valid_reason_phrase (statusText upstream)"
    and "resp_body upstream = None \<or> \<not> null_body_status (status upstream)"
  shows "relay upstream =
     Inr \<lparr>status = status upstream, statusText = statusText upstream,
          resp_headers =
            (resp_headers upstream)
              (''access-control-allow-origin'' \<mapsto> ''*'',
               ''access-control-allow-methods'' \<mapsto> ''GET, POST, PUT, DELETE, OPTIONS'',
               ''access-control-allow-headers'' \<mapsto> ''Content-Type, Authorization, X-Requested-With''),
          resp_body = resp_body upstream\<rparr>"
  using assms
  by (cases "resp_body upstream") (auto simp: relay_def cors_set_each new_Response_def)

lemma relay_out_of_range:
  assumes "status upstream < 200 \<or> 599 < status upstream"
  shows "relay upstream = Inl StatusOutOfRange"
  using assms by (auto simp: relay_def cors_set_each new_Response_def)

subsection \<open>The try and catch blocks\<close>

lemma forward_calls: "snd (forward message_of gf call) = [call]"
  by (simp add: forward_def split: sum.split)

lemma forward_failure:
  "gf call = Inl message \<Longrightarrow>
   forward message_of gf call = (error_response 502 ''Proxy Error'' message, [call])"
  by (simp add: forward_def try_forward_def)

lemma forward_success:
  "gf call = Inr upstream \<Longrightarrow> relay upstream = Inr r \<Longrightarrow>
   forward message_of gf call = (Inr r, [call])"
  by (simp add: forward_def try_forward_def)

lemma forward_relay_throws:
  "gf call = Inr upstream \<Longrightarrow> relay upstream = Inl e \<Longrightarrow>
   forward message_of gf call = (error_response 502 ''Proxy Error'' (message_of e), [call])"
  by (simp add: forward_def try_forward_def)

subsection \<open>Routing\<close>

lemma fetch_options:
  "req_method request = ''OPTIONS'' \<Longrightarrow> fetch message_of gf now request env = (handleCORS, [])"
  by (simp add: fetch_def)

lemma fetch_health:
  "req_method request \<noteq> ''OPTIONS'' \<Longrightarrow>
   pathname request = ''/health'' \<or> pathname request = ''/'' \<Longrightarrow>
   fetch message_of gf now request env =
     (new_Response (Some (Text (JSON_stringify (health_body now)))) 200 []
        (Object ((''Content-Type'', ''application/json'') # corsHeaders)), [])"
  by (simp add: fetch_def)

lemma fetch_openai:
  "req_method request \<noteq> ''OPTIONS'' \<Longrightarrow> startsWith (pathname request) ''/v1/'' \<Longrightarrow>
   fetch message_of gf now request env =
     handleOpenAI message_of gf request env (pathname request)"
  using v1_not_health [of "pathname request"] by (simp add: fetch_def)

lemma fetch_anthropic:
  "req_method request \<noteq> ''OPTIONS'' \<Longrightarrow> startsWith (pathname request) ''/anthropic/'' \<Longrightarrow>
   fetch message_of gf now request env =
     handleAnthropic message_of gf request env (pathname request)"
  using anthropic_not_health [of "pathname request"] by (simp add: fetch_def)

lemma fetch_not_found:
  "req_method request \<noteq> ''OPTIONS'' \<Longrightarrow> pathname request \<noteq> ''/health'' \<Longrightarrow>
   pathname request \<noteq> ''/'' \<Longrightarrow> \<not> startsWith (pathname request) ''/v1/'' \<Longrightarrow>
   \<not> startsWith (pathname request) ''/anthropic/'' \<Longrightarrow>
   fetch message_of gf now request env =
     (error_response 404 ''Not Found'' ''Use /v1/* for OpenAI or /anthropic/* for Anthropic'', [])"
  by (simp add: fetch_def)

lemma fetch_routes:
  "snd (fetch message_of gf now request env) = []
   \<or> fetch message_of gf now request env =
       handleOpenAI message_of gf request env (pathname request)
   \<or> fetch message_of gf now request env =
       handleAnthropic message_of gf request env (pathname request)"
  by (simp add: fetch_def Let_def)

subsection \<open>The upstream call of each forwarder\<close>

lemma handleOpenAI_forward:
  assumes "OPENAI_API_KEY env = Some key" and "key \<noteq> []"
    and "valid_header_value (normalize_value (''Bearer '' @ key))"
  shows "handleOpenAI message_of gf request env path =
     forward message_of gf
       \<lparr>url = ''https://api.openai.com'' @ path, init_method = req_method request,
        init_headers =
          ((headers request)(''authorization'' \<mapsto> normalize_value (''Bearer '' @ key)))
            (''host'' := None),
        init_body = (if req_method request = ''GET'' then None else body request)\<rparr>"
  using assms
  by (simp add: handleOpenAI_def truthy_def Let_def headers_set_def headers_delete_def
      lower_names valid_names)

lemma handleOpenAI_throws:
  assumes "OPENAI_API_KEY env = Some key" and "key \<noteq> []"
    and "\<not> valid_header_value (normalize_value (''Bearer '' @ key))"
  shows "handleOpenAI message_of gf request env path = (Inl InvalidHeaderValue, [])"
  using assms
  by (simp add: handleOpenAI_def truthy_def Let_def headers_set_def valid_names)

lemma strip_anthropic:
  assumes "startsWith path ''/anthropic/''"
  shows "replace path ''/anthropic'' [] = drop 10 path"
    and "''/anthropic'' @ drop 10 path = path"
proof -
  from assms have p: "startsWith path ''/anthropic''"
    using startsWith_append [of path "''/anthropic''" "''/''"] by simp
  then show "replace path ''/anthropic'' [] = drop 10 path"
    using replace_prefix [of path "''/anthropic''" "[]"] by (simp add: eval_nat_numeral)
  from p have "take 10 path = ''/anthropic''"
    by (simp add: startsWith_take eval_nat_numeral)
  then show "''/anthropic'' @ drop 10 path = path"
    using append_take_drop_id [of 10 path] by simp
qed

lemma handleAnthropic_forward:
  assumes "ANTHROPIC_API_KEY env = Some key" and "key \<noteq> []"
    and "valid_header_value (normalize_value key)"
    and "startsWith path ''/anthropic/''"
  shows "handleAnthropic message_of gf request env path =
     forward message_of gf
       \<lparr>url = ''https://api.anthropic.com'' @ drop 10 path, init_method = req_method request,
        init_headers =
          ((headers request)
             (''x-api-key'' \<mapsto> normalize_value key, ''anthropic-version'' \<mapsto> ''2023-06-01''))
            (''host'' := None),
        init_body = (if req_method request = ''GET'' then None else body request)\<rparr>"
  using assms(1,2,3) strip_anthropic(1) [OF assms(4)]
  by (simp add: handleAnthropic_def truthy_def Let_def headers_set_def headers_delete_def
      lower_names valid_names constant_values constant_values_valid)

lemma handleAnthropic_throws:
  assumes "ANTHROPIC_API_KEY env = Some key" and "key \<noteq> []"
    and "\<not> valid_header_value (normalize_value key)"
  shows "handleAnthropic message_of gf request env path = (Inl InvalidHeaderValue, [])"
  using assms
  by (simp add: handleAnthropic_def truthy_def Let_def headers_set_def valid_names)

lemma openai_calls:
  "call \<in> set (snd (handleOpenAI message_of gf request env path)) \<Longrightarrow>
   handleOpenAI message_of gf request env path = forward message_of gf call"
  by (auto simp: handleOpenAI_def Let_def forward_calls split: if_splits sum.splits)

lemma anthropic_calls:
  "call \<in> set (snd (handleAnthropic message_of gf request env path)) \<Longrightarrow>
   handleAnthropic message_of gf request env path = forward message_of gf call"
  by (auto simp: handleAnthropic_def Let_def forward_calls split: if_splits sum.splits)

lemma fetch_calls:
  assumes "call \<in> set (snd (fetch message_of gf now request env))"
  shows "fetch message_of gf now request env = forward message_of gf call"
proof -
  consider "snd (fetch message_of gf now request env) = []"
    | "fetch message_of gf now request env =
        handleOpenAI message_of gf request env (pathname request)"
    | "fetch message_of gf now request env =
        handleAnthropic message_of gf request env (pathname request)"
    using fetch_routes by blast
  then show ?thesis
  proof cases
    case 1
    with assms show ?thesis by simp
  next
    case 2
    with assms openai_calls [of call message_of gf request env "pathname request"]
    show ?thesis by simp
  next
    case 3
    with assms anthropic_calls [of call message_of gf request env "pathname request"]
    show ?thesis by simp
  qed
qed

subsection \<open>Every response the worker returns carries the CORS header set\<close>

lemma has_cors_json:
  "new_Response b code txt (Object ((''Content-Type'', ''application/json'') # corsHeaders)) = Inr r
   \<Longrightarrow> has_cors r"
  by (auto simp: new_Response_def json_cors_fill has_cors_def headers_get_def lower_names
      simp del: fill.simps split: if_splits option.splits BodyInit.splits)

lemma has_cors_error: "error_response code err msg = Inr r \<Longrightarrow> has_cors r"
  unfolding error_response_def by (rule has_cors_json)

lemma has_cors_handleCORS: "handleCORS = Inr r \<Longrightarrow> has_cors r"
  by (auto simp: handleCORS_eq has_cors_def headers_get_def lower_names)

lemma has_cors_relay: "relay upstream = Inr r \<Longrightarrow> has_cors r"
  by (auto simp: relay_def cors_set_each new_Response_def has_cors_def headers_get_def
      lower_names split: if_splits option.splits)

lemma has_cors_forward: "fst (forward message_of gf call) = Inr r \<Longrightarrow> has_cors r"
  by (auto simp: forward_def try_forward_def has_cors_relay has_cors_error split: sum.splits)

lemma has_cors_openai:
  "fst (handleOpenAI message_of gf request env path) = Inr r \<Longrightarrow> has_cors r"
  by (auto simp: handleOpenAI_def Let_def has_cors_forward has_cors_error
      split: if_splits sum.splits)

lemma has_cors_anthropic:
  "fst (handleAnthropic message_of gf request env path) = Inr r \<Longrightarrow> has_cors r"
  by (auto simp: handleAnthropic_def Let_def has_cors_forward has_cors_error
      split: if_splits sum.splits)

lemma has_cors_fetch: "fst (fetch message_of gf now request env) = Inr r \<Longrightarrow> has_cors r"
  by (auto simp: fetch_def Let_def has_cors_handleCORS has_cors_openai has_cors_anthropic
      has_cors_error has_cors_json simp del: fill.simps split: if_splits)

subsection \<open>The example inputs, evaluated\<close>

lemma example_keys:
  "normalize_value ''Bearer sk-test'' = ''Bearer sk-test''"
  "normalize_value ''ant-test'' = ''ant-test''"
  "normalize_value (''Bearer '' @ ''sk-test'' @ [CHR 0x0A]) = ''Bearer sk-test''"
  "normalize_value ('' ant-test'' @ [CHR 0x0A]) = ''ant-test''"
  "\<not> valid_header_value (normalize_value (''Bearer '' @ ''sk'' @ [CHR 0x0A] @ ''test''))"
  "\<not> valid_header_value (normalize_value (''ant'' @ [CHR 0x0A] @ ''test''))"
  "valid_header_value ''Bearer sk-test''"
  "valid_header_value ''ant-test''"
  by (simp_all add: normalize_value_def is_http_whitespace_def valid_header_value_def)

lemma post_chat_outcome:
  "fetch message_of gf now post_chat example_env =
     forward message_of gf
       \<lparr>url = ''https://api.openai.com/v1/chat/completions'', init_method = ''POST'',
        init_headers = (example_headers(''authorization'' \<mapsto> ''Bearer sk-test''))(''host'' := None),
        init_body = Some ''{}''\<rparr>"
proof -
  have "fetch message_of gf now post_chat example_env =
      handleOpenAI message_of gf post_chat example_env (pathname post_chat)"
    by (rule fetch_openai) (simp_all add: post_chat_def)
  moreover have "OPENAI_API_KEY example_env = Some ''sk-test''"
    by (simp add: example_env_def)
  ultimately show ?thesis
    using handleOpenAI_forward [of example_env "''sk-test''" message_of gf post_chat
        "pathname post_chat"] example_keys
    by (simp add: post_chat_def)
qed

lemma post_messages_outcome:
  "fetch message_of gf now post_messages example_env =
     forward message_of gf
       \<lparr>url = ''https://api.anthropic.com/v1/messages'', init_method = ''POST'',
        init_headers =
          (example_headers(''x-api-key'' \<mapsto> ''ant-test'', ''anthropic-version'' \<mapsto> ''2023-06-01''))
            (''host'' := None),
        init_body = Some ''{}''\<rparr>"
proof -
  have "fetch message_of gf now post_messages example_env =
      handleAnthropic message_of gf post_messages example_env (pathname post_messages)"
    by (rule fetch_anthropic) (simp_all add: post_messages_def)
  moreover have "ANTHROPIC_API_KEY example_env = Some ''ant-test''"
    by (simp add: example_env_def)
  ultimately show ?thesis
    using handleAnthropic_forward [of example_env "''ant-test''" "pathname post_messages"
        message_of gf post_messages] example_keys
    by (simp add: post_messages_def)
qed

section \<open>The claims\<close>

subsection \<open>Forwarding to OpenAI\<close>

text \<open>
  C1, as stated, says that every request whose path starts with \<^verbatim>\<open>/v1/\<close> is forwarded
  with the header \<^verbatim>\<open>Authorization: Bearer <key>\<close> once the OpenAI key is configured.
  Three inputs show where the worker does otherwise. A request of method OPTIONS is
  answered before the path is looked at: the preflight to \<^verbatim>\<open>/v1/chat/completions\<close>
  issues no upstream request. A key that ends in a line feed is forwarded without it,
  because \<^verbatim>\<open>headers.set\<close> strips the whitespace around a value. A key with a line
  feed inside makes \<^verbatim>\<open>headers.set\<close> throw, before the \<^verbatim>\<open>try\<close> block: no upstream
  request is issued and the handler returns no response.
\<close>

theorem openai_forwarding_counterexample:
  "startsWith ''/v1/chat/completions'' ''/v1/'' \<and>
   OPENAI_API_KEY example_env = Some ''sk-test'' \<and>
   snd (fetch example_message_of upstream_ok ''2026-01-01T00:00:00.000Z''
     \<lparr>req_method = ''OPTIONS'', pathname = ''/v1/chat/completions'', headers = example_headers,
      body = None\<rparr> example_env) = [] \<and>
   OPENAI_API_KEY padded_env = Some (''sk-test'' @ [CHR 0x0A]) \<and>
   snd (fetch example_message_of upstream_ok ''2026-01-01T00:00:00.000Z'' post_chat padded_env) =
     [\<lparr>url = ''https://api.openai.com/v1/chat/completions'', init_method = ''POST'',
       init_headers =
         [''content-type'' \<mapsto> ''application/json'', ''authorization'' \<mapsto> ''Bearer sk-test''],
       init_body = Some ''{}''\<rparr>] \<and>
   ''Bearer sk-test'' \<noteq> ''Bearer '' @ ''sk-test'' @ [CHR 0x0A] \<and>
   OPENAI_API_KEY broken_env = Some (''sk'' @ [CHR 0x0A] @ ''test'') \<and>
   fetch example_message_of upstream_ok ''2026-01-01T00:00:00.000Z'' post_chat broken_env =
     (Inl InvalidHeaderValue, [])"
proof -
  have m: "req_method post_chat \<noteq> ''OPTIONS''" and p: "startsWith (pathname post_chat) ''/v1/''"
    by (simp_all add: post_chat_def)
  have padded: "fetch example_message_of upstream_ok ''2026-01-01T00:00:00.000Z'' post_chat padded_env =
      forward example_message_of upstream_ok
        \<lparr>url = ''https://api.openai.com'' @ pathname post_chat, init_method = req_method post_chat,
         init_headers =
           ((headers post_chat)
              (''authorization'' \<mapsto> normalize_value (''Bearer '' @ ''sk-test'' @ [CHR 0x0A])))
             (''host'' := None),
         init_body = (if req_method post_chat = ''GET'' then None else body post_chat)\<rparr>"
    using fetch_openai [OF m p]
      handleOpenAI_forward [of padded_env "''sk-test'' @ [CHR 0x0A]" example_message_of upstream_ok
        post_chat "pathname post_chat"] example_keys
    by (simp add: padded_env_def)
  have h: "((headers post_chat)(''authorization'' \<mapsto> ''Bearer sk-test''))(''host'' := None) =
      [''content-type'' \<mapsto> ''application/json'', ''authorization'' \<mapsto> ''Bearer sk-test'']"
    by (rule ext) (simp add: post_chat_def example_headers_def)
  have broken: "fetch example_message_of upstream_ok ''2026-01-01T00:00:00.000Z'' post_chat broken_env =
      (Inl InvalidHeaderValue, [])"
    using fetch_openai [OF m p]
      handleOpenAI_throws [of broken_env "''sk'' @ [CHR 0x0A] @ ''test''" example_message_of
        upstream_ok post_chat "pathname post_chat"] example_keys
    by (simp add: broken_env_def)
  show ?thesis
    using padded h broken example_keys
    by (simp add: forward_calls fetch_def example_env_def padded_env_def broken_env_def
        post_chat_def)
qed

text \<open>
  C1 (amended): for every request of a method other than OPTIONS whose path starts with
  \<^verbatim>\<open>/v1/\<close>, when the OpenAI API key is configured (a non-empty string) and
  \<^verbatim>\<open>Bearer <key>\<close>, with the whitespace at its end stripped, is a valid header value (it
  holds no NUL, line feed or carriage return), the proxy issues exactly one upstream
  request: to the URL \<^verbatim>\<open>https://api.openai.com\<close> concatenated with the identical inbound
  path, with the method of the inbound request, with the inbound headers except that
  Authorization is overwritten with that stripped \<^verbatim>\<open>Bearer <key>\<close> and Host is
  removed, and with the inbound body except that a GET request carries no body.
\<close>

theorem openai_forwarding:
  assumes "req_method request \<noteq> ''OPTIONS''"
    and "startsWith (pathname request) ''/v1/''"
    and "OPENAI_API_KEY env = Some key" and "key \<noteq> []"
    and "valid_header_value (normalize_value (''Bearer '' @ key))"
  shows "snd (fetch message_of global_fetch now request env) =
     [\<lparr>url = ''https://api.openai.com'' @ pathname request,
       init_method = req_method request,
       init_headers =
         ((headers request)(''authorization'' \<mapsto> normalize_value (''Bearer '' @ key)))
           (''host'' := None),
       init_body = (if req_method request = ''GET'' then None else body request)\<rparr>]"
proof -
  have "fetch message_of global_fetch now request env =
      handleOpenAI message_of global_fetch request env (pathname request)"
    using assms(1,2) by (rule fetch_openai)
  then show ?thesis
    using handleOpenAI_forward [OF assms(3,4,5)] by (simp add: forward_calls)
qed

theorem openai_forwarding_witness:
  "req_method post_chat \<noteq> ''OPTIONS'' \<and> startsWith (pathname post_chat) ''/v1/'' \<and>
   OPENAI_API_KEY example_env = Some ''sk-test'' \<and>
   valid_header_value (normalize_value (''Bearer '' @ ''sk-test'')) \<and>
   snd (fetch example_message_of upstream_ok ''2026-01-01T00:00:00.000Z'' post_chat example_env) =
     [\<lparr>url = ''https://api.openai.com/v1/chat/completions'', init_method = ''POST'',
       init_headers =
         [''content-type'' \<mapsto> ''application/json'', ''authorization'' \<mapsto> ''Bearer sk-test''],
       init_body = Some ''{}''\<rparr>]"
proof -
  have m: "req_method post_chat \<noteq> ''OPTIONS''" and p: "startsWith (pathname post_chat) ''/v1/''"
    by (simp_all add: post_chat_def)
  have k: "OPENAI_API_KEY example_env = Some ''sk-test''" and n: "''sk-test'' \<noteq> []"
    by (simp_all add: example_env_def)
  have v: "valid_header_value (normalize_value (''Bearer '' @ ''sk-test''))"
    by (simp add: example_keys)
  have h: "((headers post_chat)(''authorization'' \<mapsto> ''Bearer sk-test''))(''host'' := None) =
      [''content-type'' \<mapsto> ''application/json'', ''authorization'' \<mapsto> ''Bearer sk-test'']"
    by (rule ext) (simp add: post_chat_def example_headers_def)
  show ?thesis
    using openai_forwarding [OF m p k n v, of example_message_of upstream_ok
        "''2026-01-01T00:00:00.000Z''"] m p k v h example_keys
    by (simp add: post_chat_def)
qed

subsection \<open>Forwarding to Anthropic\<close>

text \<open>
  C2, as stated, says that every request whose path starts with \<^verbatim>\<open>/anthropic/\<close> is
  forwarded with \<^verbatim>\<open>x-api-key\<close> set to the configured key once the Anthropic key is
  configured. The same three inputs show where the worker does otherwise: the OPTIONS
  preflight to \<^verbatim>\<open>/anthropic/v1/messages\<close> issues no upstream request; a key with
  whitespace around it is forwarded stripped; and a key with a line feed inside makes
  \<^verbatim>\<open>headers.set\<close> throw before the \<^verbatim>\<open>try\<close> block, so that no upstream request is
  issued and the handler returns no response.
\<close>

theorem anthropic_forwarding_counterexample:
  "startsWith ''/anthropic/v1/messages'' ''/anthropic/'' \<and>
   ANTHROPIC_API_KEY example_env = Some ''ant-test'' \<and>
   snd (fetch example_message_of upstream_ok ''2026-01-01T00:00:00.000Z''
     \<lparr>req_method = ''OPTIONS'', pathname = ''/anthropic/v1/messages'', headers = example_headers,
      body = None\<rparr> example_env) = [] \<and>
   ANTHROPIC_API_KEY padded_env = Some ('' ant-test'' @ [CHR 0x0A]) \<and>
   snd (fetch example_message_of upstream_ok ''2026-01-01T00:00:00.000Z'' post_messages padded_env) =
     [\<lparr>url = ''https://api.anthropic.com/v1/messages'', init_method = ''POST'',
       init_headers =
         [''content-type'' \<mapsto> ''application/json'', ''x-api-key'' \<mapsto> ''ant-test'',
          ''anthropic-version'' \<mapsto> ''2023-06-01''],
       init_body = Some ''{}''\<rparr>] \<and>
   ''ant-test'' \<noteq> '' ant-test'' @ [CHR 0x0A] \<and>
   ANTHROPIC_API_KEY broken_env = Some (''ant'' @ [CHR 0x0A] @ ''test'') \<and>
   fetch example_message_of upstream_ok ''2026-01-01T00:00:00.000Z'' post_messages broken_env =
     (Inl InvalidHeaderValue, [])"
proof -
  have m: "req_method post_messages \<noteq> ''OPTIONS''"
    and p: "startsWith (pathname post_messages) ''/anthropic/''"
    by (simp_all add: post_messages_def)
  have padded: "fetch example_message_of upstream_ok ''2026-01-01T00:00:00.000Z'' post_messages
        padded_env =
      forward example_message_of upstream_ok
        \<lparr>url = ''https://api.anthropic.com'' @ drop 10 (pathname post_messages),
         init_method = req_method post_messages,
         init_headers =
           ((headers post_messages)
              (''x-api-key'' \<mapsto> normalize_value ('' ant-test'' @ [CHR 0x0A]),
               ''anthropic-version'' \<mapsto> ''2023-06-01''))
             (''host'' := None),
         init_body = (if req_method post_messages = ''GET'' then None else body post_messages)\<rparr>"
    using fetch_anthropic [OF m p]
      handleAnthropic_forward [of padded_env "'' ant-test'' @ [CHR 0x0A]" "pathname post_messages"
        example_message_of upstream_ok post_messages] p example_keys
    by (simp add: padded_env_def)
  have h: "((headers post_messages)(''x-api-key'' \<mapsto> ''ant-test'', ''anthropic-version'' \<mapsto> ''2023-06-01''))
        (''host'' := None) =
      [''content-type'' \<mapsto> ''application/json'', ''x-api-key'' \<mapsto> ''ant-test'',
       ''anthropic-version'' \<mapsto> ''2023-06-01'']"
    by (rule ext) (simp add: post_messages_def example_headers_def)
  have broken: "fetch example_message_of upstream_ok ''2026-01-01T00:00:00.000Z'' post_messages
        broken_env = (Inl InvalidHeaderValue, [])"
    using fetch_anthropic [OF m p]
      handleAnthropic_throws [of broken_env "''ant'' @ [CHR 0x0A] @ ''test''" example_message_of
        upstream_ok post_messages "pathname post_messages"] example_keys
    by (simp add: broken_env_def)
  show ?thesis
    using padded h broken example_keys
    by (simp add: forward_calls fetch_def example_env_def padded_env_def broken_env_def
        post_messages_def)
qed

text \<open>
  C2 (amended): for every request of a method other than OPTIONS whose path starts with
  \<^verbatim>\<open>/anthropic/\<close>, when the Anthropic API key is configured (a non-empty string) and
  the key, with the whitespace around it stripped, is a valid header value (it holds no
  NUL, line feed or carriage return), the proxy issues one upstream request: to
  \<^verbatim>\<open>https://api.anthropic.com\<close> concatenated with the inbound path with its leading
  \<^verbatim>\<open>/anthropic\<close> prefix stripped, with headers equal to the inbound headers except
  that \<^verbatim>\<open>x-api-key\<close> is set to the stripped key, \<^verbatim>\<open>anthropic-version\<close> is set to the
  fixed string \<^verbatim>\<open>2023-06-01\<close>, and Host is removed. (The method and the body are
  forwarded as on the OpenAI route.)
\<close>

theorem anthropic_forwarding:
  assumes "req_method request \<noteq> ''OPTIONS''"
    and "startsWith (pathname request) ''/anthropic/''"
    and "ANTHROPIC_API_KEY env = Some key" and "key \<noteq> []"
    and "valid_header_value (normalize_value key)"
  shows "\<exists>rest. pathname request = ''/anthropic'' @ rest \<and>
     snd (fetch message_of global_fetch now request env) =
       [\<lparr>url = ''https://api.anthropic.com'' @ rest,
         init_method = req_method request,
         init_headers =
           ((headers request)
              (''x-api-key'' \<mapsto> normalize_value key, ''anthropic-version'' \<mapsto> ''2023-06-01''))
             (''host'' := None),
         init_body = (if req_method request = ''GET'' then None else body request)\<rparr>]"
proof -
  have "fetch message_of global_fetch now request env =
      handleAnthropic message_of global_fetch request env (pathname request)"
    using assms(1,2) by (rule fetch_anthropic)
  then have "snd (fetch message_of global_fetch now request env) =
       [\<lparr>url = ''https://api.anthropic.com'' @ drop 10 (pathname request),
         init_method = req_method request,
         init_headers =
           ((headers request)
              (''x-api-key'' \<mapsto> normalize_value key, ''anthropic-version'' \<mapsto> ''2023-06-01''))
             (''host'' := None),
         init_body = (if req_method request = ''GET'' then None else body request)\<rparr>]"
    using handleAnthropic_forward [OF assms(3,4,5,2)] by (simp add: forward_calls)
  moreover have "pathname request = ''/anthropic'' @ drop 10 (pathname request)"
    using strip_anthropic(2) [OF assms(2)] by simp
  ultimately show ?thesis by blast
qed

theorem anthropic_forwarding_witness:
  "req_method post_messages \<noteq> ''OPTIONS'' \<and>
   startsWith (pathname post_messages) ''/anthropic/'' \<and>
   ANTHROPIC_API_KEY example_env = Some ''ant-test'' \<and>
   valid_header_value (normalize_value ''ant-test'') \<and>
   snd (fetch example_message_of upstream_ok ''2026-01-01T00:00:00.000Z'' post_messages example_env) =
     [\<lparr>url = ''https://api.anthropic.com/v1/messages'', init_method = ''POST'',
       init_headers =
         [''content-type'' \<mapsto> ''application/json'', ''x-api-key'' \<mapsto> ''ant-test'',
          ''anthropic-version'' \<mapsto> ''2023-06-01''],
       init_body = Some ''{}''\<rparr>]"
proof -
  have m: "req_method post_messages \<noteq> ''OPTIONS''"
    and p: "startsWith (pathname post_messages) ''/anthropic/''"
    by (simp_all add: post_messages_def)
  have k: "ANTHROPIC_API_KEY example_env = Some ''ant-test''" and n: "''ant-test'' \<noteq> []"
    by (simp_all add: example_env_def)
  have v: "valid_header_value (normalize_value ''ant-test'')"
    by (simp add: example_keys)
  have h: "((headers post_messages)(''x-api-key'' \<mapsto> ''ant-test'', ''anthropic-version'' \<mapsto> ''2023-06-01''))
        (''host'' := None) =
      [''content-type'' \<mapsto> ''application/json'', ''x-api-key'' \<mapsto> ''ant-test'',
       ''anthropic-version'' \<mapsto> ''2023-06-01'']"
    by (rule ext) (simp add: post_messages_def example_headers_def)
  obtain rest where r: "pathname post_messages = ''/anthropic'' @ rest"
    and c: "snd (fetch example_message_of upstream_ok ''2026-01-01T00:00:00.000Z'' post_messages
          example_env) =
       [\<lparr>url = ''https://api.anthropic.com'' @ rest,
         init_method = req_method post_messages,
         init_headers =
           ((headers post_messages)
              (''x-api-key'' \<mapsto> normalize_value ''ant-test'', ''anthropic-version'' \<mapsto> ''2023-06-01''))
             (''host'' := None),
         init_body = (if req_method post_messages = ''GET'' then None else body post_messages)\<rparr>]"
    using anthropic_forwarding [OF m p k n v, of example_message_of upstream_ok
        "''2026-01-01T00:00:00.000Z''"]
    by blast
  from r have "rest = ''/v1/messages''"
    by (simp add: post_messages_def)
  with c h m p k v show ?thesis
    by (simp add: post_messages_def example_keys)
qed

subsection \<open>CORS headers on every response\<close>

text \<open>
  C3: for every inbound request, regardless of method, path, configuration, or upstream
  outcome, the proxy's response headers include the full CORS header set:
  \<^verbatim>\<open>Access-Control-Allow-Origin: *\<close>,
  \<^verbatim>\<open>Access-Control-Allow-Methods: GET, POST, PUT, DELETE, OPTIONS\<close> and
  \<^verbatim>\<open>Access-Control-Allow-Headers: Content-Type, Authorization, X-Requested-With\<close>.

  Every response that the worker returns does carry them (lemma \<open>has_cors_fetch\<close>), and a
  failure inside the \<^verbatim>\<open>try\<close> block is answered with a 502 that carries them. But
  \<^verbatim>\<open>headers.set\<close> is called on the configured key before the \<^verbatim>\<open>try\<close> block, in both
  forwarders: with a key that holds a line feed it throws, the exception escapes the
  handler, and the worker returns no response at all, on either route.
\<close>

theorem invalid_key_escapes_handler:
  "fetch example_message_of upstream_ok ''2026-01-01T00:00:00.000Z'' post_chat broken_env =
     (Inl InvalidHeaderValue, []) \<and>
   fetch example_message_of upstream_ok ''2026-01-01T00:00:00.000Z'' post_messages broken_env =
     (Inl InvalidHeaderValue, [])"
proof -
  have "fetch example_message_of upstream_ok ''2026-01-01T00:00:00.000Z'' post_chat broken_env =
      handleOpenAI example_message_of upstream_ok post_chat broken_env (pathname post_chat)"
    by (rule fetch_openai) (simp_all add: post_chat_def)
  moreover have "fetch example_message_of upstream_ok ''2026-01-01T00:00:00.000Z'' post_messages
        broken_env =
      handleAnthropic example_message_of upstream_ok post_messages broken_env
        (pathname post_messages)"
    by (rule fetch_anthropic) (simp_all add: post_messages_def)
  ultimately show ?thesis
    using handleOpenAI_throws [of broken_env "''sk'' @ [CHR 0x0A] @ ''test''" example_message_of
        upstream_ok post_chat "pathname post_chat"]
      handleAnthropic_throws [of broken_env "''ant'' @ [CHR 0x0A] @ ''test''" example_message_of
        upstream_ok post_messages "pathname post_messages"] example_keys
    by (simp add: broken_env_def)
qed

subsection \<open>Relaying the upstream response\<close>

text \<open>
  C4, as stated, says that the response of every successful upstream call is relayed
  with its status. The relayed response is built with \<^verbatim>\<open>new Response\<close>, inside the
  \<^verbatim>\<open>try\<close> block, and the constructor takes a status in 200..599 only: when the
  upstream answers 101 (a protocol upgrade), the constructor throws and the worker
  answers 502 with the message of that exception.
\<close>

theorem relay_upgrade_counterexample:
  "status upgrade_response = 101 \<and>
   upstream_upgrades
     \<lparr>url = ''https://api.openai.com/v1/chat/completions'', init_method = ''POST'',
      init_headers = (example_headers(''authorization'' \<mapsto> ''Bearer sk-test''))(''host'' := None),
      init_body = Some ''{}''\<rparr> = Inr upgrade_response \<and>
   fetch example_message_of upstream_upgrades ''2026-01-01T00:00:00.000Z'' post_chat example_env =
     (Inr \<lparr>status = 502, statusText = [],
           resp_headers =
             [''content-type'' \<mapsto> ''application/json'',
              ''access-control-allow-origin'' \<mapsto> ''*'',
              ''access-control-allow-methods'' \<mapsto> ''GET, POST, PUT, DELETE, OPTIONS'',
              ''access-control-allow-headers'' \<mapsto> ''Content-Type, Authorization, X-Requested-With''],
           resp_body =
             Some (JSON_stringify (JObject
               [(''error'', JString ''Proxy Error''),
                (''message'', JString ''Status out of range.'')]))\<rparr>,
      [\<lparr>url = ''https://api.openai.com/v1/chat/completions'', init_method = ''POST'',
        init_headers = (example_headers(''authorization'' \<mapsto> ''Bearer sk-test''))(''host'' := None),
        init_body = Some ''{}''\<rparr>])"
proof -
  let ?c = "\<lparr>url = ''https://api.openai.com/v1/chat/completions'', init_method = ''POST'',
      init_headers = (example_headers(''authorization'' \<mapsto> ''Bearer sk-test''))(''host'' := None),
      init_body = Some ''{}''\<rparr>"
  have u: "upstream_upgrades ?c = Inr upgrade_response"
    by (simp add: upstream_upgrades_def)
  have "relay upgrade_response = Inl StatusOutOfRange"
    by (rule relay_out_of_range) (simp add: upgrade_response_def)
  with u have "forward example_message_of upstream_upgrades ?c =
      (error_response 502 ''Proxy Error'' (example_message_of StatusOutOfRange), [?c])"
    by (rule forward_relay_throws)
  then show ?thesis
    using u by (simp add: post_chat_outcome error_response_eq example_message_of_def
        upgrade_response_def)
qed

text \<open>
  C4 (amended): for every forwarded request (either route) whose upstream call succeeds
  with a response that \<^verbatim>\<open>new Response\<close> accepts (a status in 200..599, a status text
  that is a reason phrase, and no body with one of the null-body statuses 204, 205 and
  304), the proxy's response has the upstream's status code, status text and body
  unchanged, and its headers equal the upstream's response headers with only the three
  CORS headers added or overwritten; no other header, the status, or the body is
  modified. A request is forwarded when the worker issues an upstream call for it; the
  call succeeds when the global fetch returns a response for it.
\<close>

theorem relay_upstream_success:
  assumes "call \<in> set (snd (fetch message_of global_fetch now request env))"
    and "global_fetch call = Inr upstream"
    and "200 \<le> status upstream" and "status upstream \<le> 599"
    and "valid_reason_phrase (statusText upstream)"
    and "resp_body upstream = None \<or> \<not> null_body_status (status upstream)"
  shows "fst (fetch message_of global_fetch now request env) =
     Inr \<lparr>status = status upstream, statusText = statusText upstream,
          resp_headers =
            (resp_headers upstream)
              (''access-control-allow-origin'' \<mapsto> ''*'',
               ''access-control-allow-methods'' \<mapsto> ''GET, POST, PUT, DELETE, OPTIONS'',
               ''access-control-allow-headers'' \<mapsto> ''Content-Type, Authorization, X-Requested-With''),
          resp_body = resp_body upstream\<rparr>"
proof -
  have "fetch message_of global_fetch now request env = forward message_of global_fetch call"
    using assms(1) by (rule fetch_calls)
  then show ?thesis
    using forward_success [where gf = global_fetch and call = call and message_of = message_of]
      assms(2) relay_eq [OF assms(3,4,5,6)]
    by simp
qed

theorem relay_upstream_success_witness:
  "fst (fetch example_message_of upstream_ok ''2026-01-01T00:00:00.000Z'' post_chat example_env) =
     Inr \<lparr>status = 201, statusText = ''Created'',
          resp_headers =
            [''x-request-id'' \<mapsto> ''req_1'',
             ''access-control-allow-origin'' \<mapsto> ''*'',
             ''access-control-allow-methods'' \<mapsto> ''GET, POST, PUT, DELETE, OPTIONS'',
             ''access-control-allow-headers'' \<mapsto> ''Content-Type, Authorization, X-Requested-With''],
          resp_body = Some ''{}''\<rparr> \<and>
   fst (fetch example_message_of upstream_ok ''2026-01-01T00:00:00.000Z'' post_messages example_env) =
     Inr \<lparr>status = 201, statusText = ''Created'',
          resp_headers =
            [''x-request-id'' \<mapsto> ''req_1'',
             ''access-control-allow-origin'' \<mapsto> ''*'',
             ''access-control-allow-methods'' \<mapsto> ''GET, POST, PUT, DELETE, OPTIONS'',
             ''access-control-allow-headers'' \<mapsto> ''Content-Type, Authorization, X-Requested-With''],
          resp_body = Some ''{}''\<rparr>"
proof -
  let ?c1 = "\<lparr>url = ''https://api.openai.com/v1/chat/completions'', init_method = ''POST'',
       init_headers = (example_headers(''authorization'' \<mapsto> ''Bearer sk-test''))(''host'' := None),
       init_body = Some ''{}''\<rparr>"
  let ?c2 = "\<lparr>url = ''https://api.anthropic.com/v1/messages'', init_method = ''POST'',
       init_headers =
         (example_headers(''x-api-key'' \<mapsto> ''ant-test'', ''anthropic-version'' \<mapsto> ''2023-06-01''))
           (''host'' := None),
       init_body = Some ''{}''\<rparr>"
  have c1: "?c1 \<in> set (snd (fetch example_message_of upstream_ok ''2026-01-01T00:00:00.000Z''
      post_chat example_env))"
    by (simp add: post_chat_outcome forward_calls)
  have c2: "?c2 \<in> set (snd (fetch example_message_of upstream_ok ''2026-01-01T00:00:00.000Z''
      post_messages example_env))"
    by (simp add: post_messages_outcome forward_calls)
  have ok1: "upstream_ok ?c1 = Inr example_upstream_response"
    and ok2: "upstream_ok ?c2 = Inr example_upstream_response"
    by (simp_all add: upstream_ok_def)
  have lo: "200 \<le> status example_upstream_response"
    and hi: "status example_upstream_response \<le> 599"
    and tx: "valid_reason_phrase (statusText example_upstream_response)"
    and nb: "resp_body example_upstream_response = None \<or>
      \<not> null_body_status (status example_upstream_response)"
    by (simp_all add: example_upstream_response_def valid_reason_phrase_def null_body_status_def)
  have h: "(resp_headers example_upstream_response)
         (''access-control-allow-origin'' \<mapsto> ''*'',
          ''access-control-allow-methods'' \<mapsto> ''GET, POST, PUT, DELETE, OPTIONS'',
          ''access-control-allow-headers'' \<mapsto> ''Content-Type, Authorization, X-Requested-With'') =
     [''x-request-id'' \<mapsto> ''req_1'',
      ''access-control-allow-origin'' \<mapsto> ''*'',
      ''access-control-allow-methods'' \<mapsto> ''GET, POST, PUT, DELETE, OPTIONS'',
      ''access-control-allow-headers'' \<mapsto> ''Content-Type, Authorization, X-Requested-With'']"
    by (rule ext) (simp add: example_upstream_response_def)
  show ?thesis
    using relay_upstream_success [OF c1 ok1 lo hi tx nb]
      relay_upstream_success [OF c2 ok2 lo hi tx nb] h
    by (simp add: example_upstream_response_def)
qed

subsection \<open>A missing key\<close>

text \<open>
  C5: for every request routed to the OpenAI or Anthropic forwarding path, if the
  corresponding API key is absent from configuration, the proxy responds with status 500
  and a JSON body containing \<^verbatim>\<open>error: "Configuration Error"\<close>, and makes no upstream
  network call. A request is routed to a forwarder when its method is not OPTIONS and
  its path starts with the forwarder's prefix; the key counts as absent when it is not
  set, and also when it is the empty string.
\<close>

theorem missing_key_configuration_error:
  assumes "req_method request \<noteq> ''OPTIONS''"
    and "startsWith (pathname request) ''/v1/'' \<and> \<not> truthy (OPENAI_API_KEY env) \<or>
         startsWith (pathname request) ''/anthropic/'' \<and> \<not> truthy (ANTHROPIC_API_KEY env)"
  shows "\<exists>r. fst (fetch message_of global_fetch now request env) = Inr r \<and>
     status r = 500 \<and>
     resp_body r =
       Some (JSON_stringify (JObject
         [(''error'', JString ''Configuration Error''),
          (''message'', JString
             (if startsWith (pathname request) ''/v1/''
              then ''OPENAI_API_KEY not configured in worker secrets''
              else ''ANTHROPIC_API_KEY not configured in worker secrets''))])) \<and>
     snd (fetch message_of global_fetch now request env) = []"
proof -
  from assms(2) consider
      "startsWith (pathname request) ''/v1/''" and "\<not> truthy (OPENAI_API_KEY env)"
    | "startsWith (pathname request) ''/anthropic/''" and "\<not> truthy (ANTHROPIC_API_KEY env)"
    by blast
  then show ?thesis
  proof cases
    case 1
    then show ?thesis
      using fetch_openai [OF assms(1), of message_of global_fetch now env]
      by (simp add: handleOpenAI_def error_response_eq)
  next
    case 2
    then have "\<not> startsWith (pathname request) ''/v1/''"
      using anthropic_not_health by blast
    with 2 show ?thesis
      using fetch_anthropic [OF assms(1), of message_of global_fetch now env]
      by (simp add: handleAnthropic_def error_response_eq)
  qed
qed

theorem missing_key_configuration_error_witness:
  "\<not> truthy (OPENAI_API_KEY empty_env) \<and> \<not> truthy (ANTHROPIC_API_KEY empty_env) \<and>
   (\<exists>r. fst (fetch example_message_of upstream_ok ''2026-01-01T00:00:00.000Z'' post_chat empty_env) =
        Inr r \<and>
      status r = 500 \<and>
      resp_body r =
        Some (JSON_stringify (JObject
          [(''error'', JString ''Configuration Error''),
           (''message'', JString ''OPENAI_API_KEY not configured in worker secrets'')])) \<and>
      snd (fetch example_message_of upstream_ok ''2026-01-01T00:00:00.000Z'' post_chat empty_env) =
        []) \<and>
   (\<exists>r. fst (fetch example_message_of upstream_ok ''2026-01-01T00:00:00.000Z'' post_messages
          empty_env) = Inr r \<and>
      status r = 500 \<and>
      resp_body r =
        Some (JSON_stringify (JObject
          [(''error'', JString ''Configuration Error''),
           (''message'', JString ''ANTHROPIC_API_KEY not configured in worker secrets'')])) \<and>
      snd (fetch example_message_of upstream_ok ''2026-01-01T00:00:00.000Z'' post_messages
          empty_env) = [])"
proof -
  have k: "\<not> truthy (OPENAI_API_KEY empty_env)" "\<not> truthy (ANTHROPIC_API_KEY empty_env)"
    by (simp_all add: empty_env_def truthy_def)
  have m1: "req_method post_chat \<noteq> ''OPTIONS''"
    and p1: "startsWith (pathname post_chat) ''/v1/''"
    by (simp_all add: post_chat_def)
  have m2: "req_method post_messages \<noteq> ''OPTIONS''"
    and p2: "startsWith (pathname post_messages) ''/anthropic/''"
    and q2: "\<not> startsWith (pathname post_messages) ''/v1/''"
    by (simp_all add: post_messages_def)
  have r1: "startsWith (pathname post_chat) ''/v1/'' \<and> \<not> truthy (OPENAI_API_KEY empty_env) \<or>
      startsWith (pathname post_chat) ''/anthropic/'' \<and> \<not> truthy (ANTHROPIC_API_KEY empty_env)"
    using p1 k by blast
  have r2: "startsWith (pathname post_messages) ''/v1/'' \<and> \<not> truthy (OPENAI_API_KEY empty_env) \<or>
      startsWith (pathname post_messages) ''/anthropic/'' \<and> \<not> truthy (ANTHROPIC_API_KEY empty_env)"
    using p2 k by blast
  show ?thesis
    using missing_key_configuration_error [OF m1 r1, of example_message_of upstream_ok
        "''2026-01-01T00:00:00.000Z''"]
      missing_key_configuration_error [OF m2 r2, of example_message_of upstream_ok
        "''2026-01-01T00:00:00.000Z''"]
      k p1 q2
    by simp
qed

subsection \<open>An upstream that cannot be reached\<close>

text \<open>
  C6: for every forwarded request (either route) whose upstream network call fails with
  an error, the proxy responds with status 502 and a JSON body containing
  \<^verbatim>\<open>error: "Proxy Error"\<close> and the failure's message text, and no retry of the upstream
  call is attempted: the failed call is the only one issued.
\<close>

theorem upstream_failure_proxy_error:
  assumes "call \<in> set (snd (fetch message_of global_fetch now request env))"
    and "global_fetch call = Inl message"
  shows "\<exists>r. fst (fetch message_of global_fetch now request env) = Inr r \<and>
     status r = 502 \<and>
     resp_body r =
       Some (JSON_stringify (JObject
         [(''error'', JString ''Proxy Error''), (''message'', JString message)])) \<and>
     snd (fetch message_of global_fetch now request env) = [call]"
proof -
  have "fetch message_of global_fetch now request env = forward message_of global_fetch call"
    using assms(1) by (rule fetch_calls)
  then show ?thesis
    using forward_failure [where gf = global_fetch and call = call and message_of = message_of]
      assms(2)
    by (simp add: error_response_eq)
qed

theorem upstream_failure_proxy_error_witness:
  "(\<exists>r. fst (fetch example_message_of upstream_down ''2026-01-01T00:00:00.000Z'' post_chat
          example_env) = Inr r \<and>
      status r = 502 \<and>
      resp_body r =
        Some (JSON_stringify (JObject
          [(''error'', JString ''Proxy Error''),
           (''message'', JString ''Network connection lost'')])) \<and>
      snd (fetch example_message_of upstream_down ''2026-01-01T00:00:00.000Z'' post_chat
          example_env) =
        [\<lparr>url = ''https://api.openai.com/v1/chat/completions'', init_method = ''POST'',
          init_headers =
            (example_headers(''authorization'' \<mapsto> ''Bearer sk-test''))(''host'' := None),
          init_body = Some ''{}''\<rparr>]) \<and>
   (\<exists>r. fst (fetch example_message_of upstream_down ''2026-01-01T00:00:00.000Z'' post_messages
          example_env) = Inr r \<and>
      status r = 502 \<and>
      resp_body r =
        Some (JSON_stringify (JObject
          [(''error'', JString ''Proxy Error''),
           (''message'', JString ''Network connection lost'')])) \<and>
      snd (fetch example_message_of upstream_down ''2026-01-01T00:00:00.000Z'' post_messages
          example_env) =
        [\<lparr>url = ''https://api.anthropic.com/v1/messages'', init_method = ''POST'',
          init_headers =
            (example_headers(''x-api-key'' \<mapsto> ''ant-test'', ''anthropic-version'' \<mapsto> ''2023-06-01''))
              (''host'' := None),
          init_body = Some ''{}''\<rparr>])"
proof -
  let ?c1 = "\<lparr>url = ''https://api.openai.com/v1/chat/completions'', init_method = ''POST'',
       init_headers = (example_headers(''authorization'' \<mapsto> ''Bearer sk-test''))(''host'' := None),
       init_body = Some ''{}''\<rparr>"
  let ?c2 = "\<lparr>url = ''https://api.anthropic.com/v1/messages'', init_method = ''POST'',
       init_headers =
         (example_headers(''x-api-key'' \<mapsto> ''ant-test'', ''anthropic-version'' \<mapsto> ''2023-06-01''))
           (''host'' := None),
       init_body = Some ''{}''\<rparr>"
  have c1: "?c1 \<in> set (snd (fetch example_message_of upstream_down ''2026-01-01T00:00:00.000Z''
      post_chat example_env))"
    by (simp add: post_chat_outcome forward_calls)
  have c2: "?c2 \<in> set (snd (fetch example_message_of upstream_down ''2026-01-01T00:00:00.000Z''
      post_messages example_env))"
    by (simp add: post_messages_outcome forward_calls)
  have d1: "upstream_down ?c1 = Inl ''Network connection lost''"
    and d2: "upstream_down ?c2 = Inl ''Network connection lost''"
    by (simp_all add: upstream_down_def)
  show ?thesis
    using upstream_failure_proxy_error [OF c1 d1] upstream_failure_proxy_error [OF c2 d2]
    by blast
qed

subsection \<open>Preflight\<close>

text \<open>
  C7: for every request with method OPTIONS, regardless of path and of any configured
  keys, the proxy responds with status 204, an empty body, and headers consisting of
  only the CORS header set; no upstream call is made.
\<close>

theorem options_preflight:
  assumes "req_method request = ''OPTIONS''"
  shows "fetch message_of global_fetch now request env =
     (Inr \<lparr>status = 204, statusText = [],
           resp_headers =
             [''access-control-allow-origin'' \<mapsto> ''*'',
              ''access-control-allow-methods'' \<mapsto> ''GET, POST, PUT, DELETE, OPTIONS'',
              ''access-control-allow-headers'' \<mapsto> ''Content-Type, Authorization, X-Requested-With''],
           resp_body = None\<rparr>, [])"
  using fetch_options [OF assms, of message_of global_fetch now env]
  by (simp add: handleCORS_eq)

theorem options_preflight_witness:
  "fetch example_message_of upstream_ok ''2026-01-01T00:00:00.000Z''
     \<lparr>req_method = ''OPTIONS'', pathname = ''/v1/chat/completions'', headers = example_headers,
      body = None\<rparr> broken_env =
     (Inr \<lparr>status = 204, statusText = [],
           resp_headers =
             [''access-control-allow-origin'' \<mapsto> ''*'',
              ''access-control-allow-methods'' \<mapsto> ''GET, POST, PUT, DELETE, OPTIONS'',
              ''access-control-allow-headers'' \<mapsto> ''Content-Type, Authorization, X-Requested-With''],
           resp_body = None\<rparr>, [])"
proof -
  have m: "req_method \<lparr>req_method = ''OPTIONS'', pathname = ''/v1/chat/completions'',
      headers = example_headers, body = None\<rparr> = ''OPTIONS''"
    by simp
  show ?thesis
    by (rule options_preflight [OF m])
qed

subsection \<open>Health check\<close>

text \<open>
  C8: for every GET request to path \<^verbatim>\<open>/\<close> or \<^verbatim>\<open>/health\<close>, the proxy responds with
  status 200 and a JSON body containing keys \<^verbatim>\<open>status\<close>, \<^verbatim>\<open>service\<close>,
  \<^verbatim>\<open>timestamp\<close> and \<^verbatim>\<open>endpoints\<close> with \<^verbatim>\<open>endpoints.openai == "/v1/*"\<close> and
  \<^verbatim>\<open>endpoints.anthropic == "/anthropic/*"\<close>, and makes no upstream call.
\<close>

theorem health_check:
  assumes "req_method request = ''GET''"
    and "pathname request = ''/'' \<or> pathname request = ''/health''"
  shows "\<exists>r. fst (fetch message_of global_fetch now request env) = Inr r \<and>
     status r = 200 \<and>
     resp_body r =
       Some (JSON_stringify (JObject
         [(''status'', JString ''ok''),
          (''service'', JString ''guidedog''),
          (''timestamp'', JString now),
          (''endpoints'',
             JObject [(''openai'', JString ''/v1/*''), (''anthropic'', JString ''/anthropic/*'')])])) \<and>
     snd (fetch message_of global_fetch now request env) = []"
proof -
  from assms(1) have "req_method request \<noteq> ''OPTIONS''"
    by simp
  moreover from assms(2) have "pathname request = ''/health'' \<or> pathname request = ''/''"
    by blast
  ultimately have "fetch message_of global_fetch now request env =
     (new_Response (Some (Text (JSON_stringify (health_body now)))) 200 []
        (Object ((''Content-Type'', ''application/json'') # corsHeaders)), [])"
    by (rule fetch_health)
  then show ?thesis
    by (simp add: json_response_eq plain_statuses health_body_def del: fill.simps)
qed

theorem health_check_witness:
  "\<exists>r. fst (fetch example_message_of upstream_down ''2026-01-01T00:00:00.000Z''
       \<lparr>req_method = ''GET'', pathname = ''/health'', headers = example_headers, body = None\<rparr>
       empty_env) = Inr r \<and>
     status r = 200 \<and>
     resp_body r =
       Some (JSON_stringify (JObject
         [(''status'', JString ''ok''),
          (''service'', JString ''guidedog''),
          (''timestamp'', JString ''2026-01-01T00:00:00.000Z''),
          (''endpoints'',
             JObject [(''openai'', JString ''/v1/*''), (''anthropic'', JString ''/anthropic/*'')])])) \<and>
     snd (fetch example_message_of upstream_down ''2026-01-01T00:00:00.000Z''
       \<lparr>req_method = ''GET'', pathname = ''/health'', headers = example_headers, body = None\<rparr>
       empty_env) = []"
proof -
  let ?r = "\<lparr>req_method = ''GET'', pathname = ''/health'', headers = example_headers, body = None\<rparr>"
  have m: "req_method ?r = ''GET''" and p: "pathname ?r = ''/'' \<or> pathname ?r = ''/health''"
    by simp_all
  show ?thesis
    by (rule health_check [OF m p])
qed

subsection \<open>Paths that match no route\<close>

text \<open>
  C9, as stated, gives 404 to a request of any method whose path matches no route. A
  request of method OPTIONS is answered with 204 whatever its path is.
\<close>

theorem not_found_options_counterexample:
  "\<not> startsWith ''/nowhere'' ''/v1/'' \<and> \<not> startsWith ''/nowhere'' ''/anthropic/'' \<and>
   ''/nowhere'' \<noteq> ''/'' \<and> ''/nowhere'' \<noteq> ''/health'' \<and>
   fetch example_message_of upstream_ok ''2026-01-01T00:00:00.000Z''
     \<lparr>req_method = ''OPTIONS'', pathname = ''/nowhere'', headers = example_headers, body = None\<rparr>
     example_env =
     (Inr \<lparr>status = 204, statusText = [],
           resp_headers =
             [''access-control-allow-origin'' \<mapsto> ''*'',
              ''access-control-allow-methods'' \<mapsto> ''GET, POST, PUT, DELETE, OPTIONS'',
              ''access-control-allow-headers'' \<mapsto> ''Content-Type, Authorization, X-Requested-With''],
           resp_body = None\<rparr>, [])"
  by (simp add: fetch_def handleCORS_eq)

text \<open>
  C9 (amended): for every request of a method other than OPTIONS whose path does not
  start with \<^verbatim>\<open>/v1/\<close>, does not start with \<^verbatim>\<open>/anthropic/\<close>, and is not equal to
  \<^verbatim>\<open>/\<close> or \<^verbatim>\<open>/health\<close>, the response status is 404 with a JSON not-found body, and
  CORS headers are present.
\<close>

theorem not_found:
  assumes "req_method request \<noteq> ''OPTIONS''"
    and "\<not> startsWith (pathname request) ''/v1/''"
    and "\<not> startsWith (pathname request) ''/anthropic/''"
    and "pathname request \<noteq> ''/''" and "pathname request \<noteq> ''/health''"
  shows "\<exists>r. fst (fetch message_of global_fetch now request env) = Inr r \<and>
     status r = 404 \<and>
     resp_body r =
       Some (JSON_stringify (JObject
         [(''error'', JString ''Not Found''),
          (''message'', JString ''Use /v1/* for OpenAI or /anthropic/* for Anthropic'')])) \<and>
     headers_get (resp_headers r) ''Access-Control-Allow-Origin'' = Some ''*'' \<and>
     headers_get (resp_headers r) ''Access-Control-Allow-Methods'' =
       Some ''GET, POST, PUT, DELETE, OPTIONS'' \<and>
     headers_get (resp_headers r) ''Access-Control-Allow-Headers'' =
       Some ''Content-Type, Authorization, X-Requested-With''"
proof -
  have "fetch message_of global_fetch now request env =
     (error_response 404 ''Not Found'' ''Use /v1/* for OpenAI or /anthropic/* for Anthropic'', [])"
    using assms by (simp add: fetch_not_found)
  then show ?thesis
    by (simp add: error_response_eq headers_get_def lower_names)
qed

theorem not_found_witness:
  "req_method \<lparr>req_method = ''DELETE'', pathname = ''/v2/models'', headers = example_headers,
     body = None\<rparr> \<noteq> ''OPTIONS'' \<and>
   \<not> startsWith ''/v2/models'' ''/v1/'' \<and> \<not> startsWith ''/v2/models'' ''/anthropic/'' \<and>
   (\<exists>r. fst (fetch example_message_of upstream_ok ''2026-01-01T00:00:00.000Z''
       \<lparr>req_method = ''DELETE'', pathname = ''/v2/models'', headers = example_headers, body = None\<rparr>
       example_env) = Inr r \<and>
     status r = 404 \<and>
     headers_get (resp_headers r) ''Access-Control-Allow-Origin'' = Some ''*'')"
proof -
  let ?r = "\<lparr>req_method = ''DELETE'', pathname = ''/v2/models'', headers = example_headers,
     body = None\<rparr>"
  have m: "req_method ?r \<noteq> ''OPTIONS''"
    and a: "\<not> startsWith (pathname ?r) ''/v1/''"
    and b: "\<not> startsWith (pathname ?r) ''/anthropic/''"
    and c: "pathname ?r \<noteq> ''/''" and d: "pathname ?r \<noteq> ''/health''"
    by simp_all
  show ?thesis
    using not_found [OF m a b c d, of example_message_of upstream_ok
        "''2026-01-01T00:00:00.000Z''" example_env] m a b
    by auto
qed

subsection \<open>A prefix without its slash\<close>

text \<open>
  C10: for every non-OPTIONS request whose path is exactly \<^verbatim>\<open>/v1\<close> or exactly
  \<^verbatim>\<open>/anthropic\<close> (no trailing slash), the proxy responds 404 and makes no upstream
  call: routing to a provider requires the trailing slash, since the route tests are
  \<^verbatim>\<open>startsWith('/v1/')\<close> and \<^verbatim>\<open>startsWith('/anthropic/')\<close>.
\<close>

theorem bare_prefix_not_routed:
  assumes "req_method request \<noteq> ''OPTIONS''"
    and "pathname request = ''/v1'' \<or> pathname request = ''/anthropic''"
  shows "(\<exists>r. fst (fetch message_of global_fetch now request env) = Inr r \<and> status r = 404) \<and>
     snd (fetch message_of global_fetch now request env) = [] \<and>
     \<not> startsWith (pathname request) ''/v1/'' \<and>
     \<not> startsWith (pathname request) ''/anthropic/''"
proof -
  from assms(2) have p: "\<not> startsWith (pathname request) ''/v1/''"
      "\<not> startsWith (pathname request) ''/anthropic/''"
      "pathname request \<noteq> ''/''" "pathname request \<noteq> ''/health''"
    by auto
  have "fetch message_of global_fetch now request env =
     (error_response 404 ''Not Found'' ''Use /v1/* for OpenAI or /anthropic/* for Anthropic'', [])"
    using assms(1) p by (simp add: fetch_not_found)
  with p show ?thesis
    by (simp add: error_response_eq)
qed

theorem bare_prefix_not_routed_witness:
  "(\<exists>r. fst (fetch example_message_of upstream_ok ''2026-01-01T00:00:00.000Z''
       \<lparr>req_method = ''POST'', pathname = ''/v1'', headers = example_headers, body = Some ''{}''\<rparr>
       example_env) = Inr r \<and> status r = 404) \<and>
   snd (fetch example_message_of upstream_ok ''2026-01-01T00:00:00.000Z''
     \<lparr>req_method = ''POST'', pathname = ''/v1'', headers = example_headers, body = Some ''{}''\<rparr>
     example_env) = [] \<and>
   (\<exists>r. fst (fetch example_message_of upstream_ok ''2026-01-01T00:00:00.000Z''
       \<lparr>req_method = ''POST'', pathname = ''/anthropic'', headers = example_headers,
        body = Some ''{}''\<rparr> example_env) = Inr r \<and> status r = 404) \<and>
   snd (fetch example_message_of upstream_ok ''2026-01-01T00:00:00.000Z''
     \<lparr>req_method = ''POST'', pathname = ''/anthropic'', headers = example_headers,
      body = Some ''{}''\<rparr> example_env) = []"
proof -
  let ?r1 = "\<lparr>req_method = ''POST'', pathname = ''/v1'', headers = example_headers,
     body = Some ''{}''\<rparr>"
  let ?r2 = "\<lparr>req_method = ''POST'', pathname = ''/anthropic'', headers = example_headers,
     body = Some ''{}''\<rparr>"
  have m1: "req_method ?r1 \<noteq> ''OPTIONS''"
    and p1: "pathname ?r1 = ''/v1'' \<or> pathname ?r1 = ''/anthropic''"
    and m2: "req_method ?r2 \<noteq> ''OPTIONS''"
    and p2: "pathname ?r2 = ''/v1'' \<or> pathname ?r2 = ''/anthropic''"
    by simp_all
  show ?thesis
    using bare_prefix_not_routed [OF m1 p1, of example_message_of upstream_ok
        "''2026-01-01T00:00:00.000Z''" example_env]
      bare_prefix_not_routed [OF m2 p2, of example_message_of upstream_ok
        "''2026-01-01T00:00:00.000Z''" example_env]
    by blast
qed

end
